theory Spec2Isabelle
  imports Main
begin

section \<open>JavaScript values, rows and decimal printing\<close>

text \<open>
  The dashboard script receives rows from the hosted table as plain objects decoded from
  JSON. A field of such a row is one of the primitive values below; numbers are the
  integer-valued ones (the count column is an integer column, and every time value the
  script computes with is an integer number of milliseconds).
\<close>

datatype jsval = JUndefined | JNull | JBool bool | JNum int | JStr string

text \<open>A row object: its own properties, in the order of the decoded JSON.\<close>

type_synonym row = "(string \<times> jsval) list"

text \<open>
  \<^verbatim>\<open>record.f\<close>: the value of the own property, \<^verbatim>\<open>undefined\<close> when the row has none
  (none of \<^verbatim>\<open>room_id\<close>, \<^verbatim>\<open>timestamp\<close>, \<^verbatim>\<open>people_count\<close> is inherited).
\<close>

definition getProp :: "row \<Rightarrow> string \<Rightarrow> jsval" where
  "getProp record f = (case map_of record f of None \<Rightarrow> JUndefined | Some v \<Rightarrow> v)"

text \<open>
  Number-to-string conversion of an integer: plain decimal digits, a leading minus sign
  (what the language prints for every integer below \<open>10^21\<close> in magnitude).
\<close>

definition digitChar :: "nat \<Rightarrow> char" where
  "digitChar d = ''0123456789'' ! d"

fun showNat :: "nat \<Rightarrow> string" where
  "showNat n = (if n < 10 then [digitChar n] else showNat (n div 10) @ [digitChar (n mod 10)])"

declare showNat.simps [simp del]

definition showInt :: "int \<Rightarrow> string" where
  "showInt i = (if i < 0 then CHR ''-'' # showNat (nat (- i)) else showNat (nat i))"

text \<open>\<^verbatim>\<open>ToPropertyKey\<close>: the string under which a value is used as a property name.\<close>

fun toPropertyKey :: "jsval \<Rightarrow> string" where
  "toPropertyKey JUndefined = ''undefined''"
| "toPropertyKey JNull = ''null''"
| "toPropertyKey (JBool b) = (if b then ''true'' else ''false'')"
| "toPropertyKey (JNum n) = showInt n"
| "toPropertyKey (JStr s) = s"

section \<open>Occupancy status\<close>

record occupancy =
  status :: string
  color :: string

text \<open>\<^verbatim>\<open>getOccupancyStatus(count)\<close> on a numeric count.\<close>

definition getOccupancyStatus :: "int \<Rightarrow> occupancy" where
  "getOccupancyStatus count =
     (if count = 0 then \<lparr>status = ''empty'', color = ''#0369a1''\<rparr>
      else if count \<le> 5 then \<lparr>status = ''moderate'', color = ''#92400e''\<rparr>
      else \<lparr>status = ''full'', color = ''#991b1b''\<rparr>)"

text \<open>The order of the three status levels: empty, then moderate, then full.\<close>

definition tierRank :: "string \<Rightarrow> nat" where
  "tierRank s = (if s = ''empty'' then 0 else if s = ''moderate'' then 1 else 2)"

section \<open>Relative time labels\<close>

text \<open>
  \<^verbatim>\<open>formatTimestamp(isoString)\<close>. The two clock readings are inputs: \<open>date\<close> is the
  time value of \<^verbatim>\<open>new Date(isoString)\<close> in milliseconds, \<open>None\<close> when the runtime cannot
  parse the string (an invalid date, whose time value is NaN; the constructor does not
  throw), and \<open>now\<close> is the time value of \<^verbatim>\<open>new Date()\<close>. \<open>toLocaleTimeString\<close> is how the
  runtime renders a valid date in the viewer's locale. Time values are whole numbers of
  milliseconds, and for a difference below \<open>2^52\<close> in magnitude \<^verbatim>\<open>Math.floor\<close> of either
  floating-point quotient is the integer quotient rounded down, which \<open>div\<close> computes.
  With a NaN difference both comparisons are false, so the last branch is taken, where an
  invalid date renders as \<^verbatim>\<open>Invalid Date\<close>. Nothing in the body throws, so the \<^verbatim>\<open>catch\<close>
  branch returning \<^verbatim>\<open>Unknown\<close> is never entered.
\<close>

definition formatTimestamp :: "(int \<Rightarrow> string) \<Rightarrow> int \<Rightarrow> int option \<Rightarrow> string" where
  "formatTimestamp toLocaleTimeString now date =
     (case date of
        None \<Rightarrow> ''Invalid Date''
      | Some d \<Rightarrow>
          (let diffMs = now - d;
               diffMins = diffMs div 60000;
               diffSecs = diffMs div 1000
           in if diffMins < 1 then showInt diffSecs @ ''s ago''
              else if diffMins < 60 then showInt diffMins @ ''m ago''
              else toLocaleTimeString d))"

section \<open>Grouping the fetched rows by room\<close>

text \<open>
  \<^verbatim>\<open>roomMap\<close> is an ordinary object created by \<^verbatim>\<open>{}\<close>: its own properties, kept here in
  the order of their creation, and behind them the properties it inherits from
  \<^verbatim>\<open>Object.prototype\<close>. Every inherited property is a function or (for \<^verbatim>\<open>__proto__\<close>) the
  prototype object itself, so reading any of these names yields a truthy value.
\<close>

type_synonym roomMap = "(string \<times> row) list"

definition objectPrototypeKeys :: "string list" where
  "objectPrototypeKeys =
     [''constructor'', ''hasOwnProperty'', ''isPrototypeOf'', ''propertyIsEnumerable'',
      ''toLocaleString'', ''toString'', ''valueOf'', ''__proto__'',
      ''__defineGetter__'', ''__defineSetter__'', ''__lookupGetter__'', ''__lookupSetter__'']"

text \<open>
  Truthiness of \<^verbatim>\<open>roomMap[k]\<close>: an own property holds a row object, which is truthy; an
  inherited one is truthy as well; any other name reads as \<^verbatim>\<open>undefined\<close>.
\<close>

definition truthyLookup :: "roomMap \<Rightarrow> string \<Rightarrow> bool" where
  "truthyLookup m k = (k \<in> fst ` set m \<or> k \<in> set objectPrototypeKeys)"

text \<open>
  \<^verbatim>\<open>roomMap[k] = record\<close>: an existing own property keeps its place, a new one is created
  after all the others.
\<close>

fun putProp :: "roomMap \<Rightarrow> string \<Rightarrow> row \<Rightarrow> roomMap" where
  "putProp [] k v = [(k, v)]"
| "putProp (p # ps) k v = (if fst p = k then (k, v) # ps else p # putProp ps k v)"

text \<open>The key under which a row is filed: \<^verbatim>\<open>record.room_id\<close> used as a property name.\<close>

definition roomKey :: "row \<Rightarrow> string" where
  "roomKey record = toPropertyKey (getProp record ''room_id'')"

text \<open>The \<^verbatim>\<open>for (const record of data)\<close> loop.\<close>

fun groupRows :: "roomMap \<Rightarrow> row list \<Rightarrow> roomMap" where
  "groupRows m [] = m"
| "groupRows m (record # rest) =
     groupRows (if \<not> truthyLookup m (roomKey record) then putProp m (roomKey record) record else m) rest"

text \<open>
  Property names that are array indices: the decimal numerals without leading zeros of the
  numbers below \<open>2^32 - 1\<close>. An object enumerates its own properties with the array indices
  first, in ascending numeric order, and then all other names in the order of creation;
  \<^verbatim>\<open>Object.values\<close> returns the values in that order.
\<close>

definition isDigit :: "char \<Rightarrow> bool" where
  "isDigit c = (c \<in> set ''0123456789'')"

definition digitVal :: "char \<Rightarrow> nat" where
  "digitVal c = of_char c - 48"

definition decimalValue :: "string \<Rightarrow> nat" where
  "decimalValue s = foldl (\<lambda>a c. 10 * a + digitVal c) 0 s"

definition isArrayIndex :: "string \<Rightarrow> bool" where
  "isArrayIndex k =
     (k \<noteq> [] \<and> list_all isDigit k \<and> (k = ''0'' \<or> hd k \<noteq> CHR ''0'') \<and> decimalValue k < 2 ^ 32 - 1)"

definition ownKeysOrder :: "roomMap \<Rightarrow> roomMap" where
  "ownKeysOrder m =
     sort_key (\<lambda>p. decimalValue (fst p)) (filter (\<lambda>p. isArrayIndex (fst p)) m)
     @ filter (\<lambda>p. \<not> isArrayIndex (fst p)) m"

definition objectValues :: "roomMap \<Rightarrow> row list" where
  "objectValues m = map snd (ownKeysOrder m)"

text \<open>The grouping of \<^verbatim>\<open>fetchLatestRoomCounts\<close>: the loop, then \<^verbatim>\<open>Object.values(roomMap)\<close>.\<close>

definition latestPerRoom :: "row list \<Rightarrow> row list" where
  "latestPerRoom rows = objectValues (groupRows [] rows)"

section \<open>Fetching\<close>

text \<open>
  What the awaited query gives back: either the client's promise is rejected, or it
  resolves to an object with the fields \<^verbatim>\<open>data\<close> and \<^verbatim>\<open>error\<close>.
\<close>

datatype jsError = JsError (message: string)

record response =
  data :: "row list option"
  error :: "jsError option"

datatype fetchOutcome = Rejected jsError | Resolved response

text \<open>
  \<^verbatim>\<open>fetchLatestRoomCounts()\<close>, given whether \<^verbatim>\<open>supabaseClient\<close> is set and what the query
  gives back. Every error is logged and thrown again by the \<^verbatim>\<open>catch\<close> block, so a thrown
  error is the \<open>Inl\<close> result. When \<^verbatim>\<open>data\<close> is \<^verbatim>\<open>null\<close> the loop header throws a TypeError.
\<close>

definition fetchLatestRoomCounts :: "bool \<Rightarrow> fetchOutcome \<Rightarrow> jsError + row list" where
  "fetchLatestRoomCounts supabaseClient outcome =
     (if \<not> supabaseClient then Inl (JsError ''Supabase client not initialized'')
      else case outcome of
        Rejected e \<Rightarrow> Inl e
      | Resolved r \<Rightarrow>
          (case error r of
             Some e \<Rightarrow> Inl e
           | None \<Rightarrow>
               (case data r of
                  None \<Rightarrow> Inl (JsError ''data is not iterable'')
                | Some rows \<Rightarrow> Inr (latestPerRoom rows))))"

section \<open>The page and the refresh cycle\<close>

text \<open>
  The module-level variables and the page elements the script writes to. \<open>roomGrid\<close> holds
  the rooms whose cards are in the grid, in the order of the cards. Two counters keep
  track of what the environment sees: \<open>fetchCalls\<close> counts the queries sent to the data
  store, \<open>awaiting\<close> counts the invocations of \<^verbatim>\<open>loadRoomData\<close> that are suspended at
  the \<^verbatim>\<open>await\<close>.
\<close>

record page =
  supabaseClient :: bool
  isLoading :: bool
  refreshBtnDisabled :: bool
  loadingIndicatorHidden :: bool
  errorMessageText :: string
  errorMessageHidden :: bool
  emptyStateHidden :: bool
  roomGrid :: "row list"
  statusText :: string
  statusColor :: string
  lastUpdateText :: string
  fetchCalls :: nat
  awaiting :: nat

definition getStatusColor :: "string \<Rightarrow> string" where
  "getStatusColor type =
     (if type = ''success'' then ''#10b981''
      else if type = ''error'' then ''#ef4444''
      else if type = ''warning'' then ''#f59e0b''
      else ''#6b7280'')"

definition updateStatus :: "string \<Rightarrow> string \<Rightarrow> page \<Rightarrow> page" where
  "updateStatus msg type s = s\<lparr>statusText := msg, statusColor := getStatusColor type\<rparr>"

definition showLoadingIndicator :: "page \<Rightarrow> page" where
  "showLoadingIndicator s = s\<lparr>loadingIndicatorHidden := False\<rparr>"

definition hideLoadingIndicator :: "page \<Rightarrow> page" where
  "hideLoadingIndicator s = s\<lparr>loadingIndicatorHidden := True\<rparr>"

definition showError :: "string \<Rightarrow> page \<Rightarrow> page" where
  "showError msg s = s\<lparr>errorMessageText := msg, errorMessageHidden := False\<rparr>"

definition hideErrorMessage :: "page \<Rightarrow> page" where
  "hideErrorMessage s = s\<lparr>errorMessageHidden := True\<rparr>"

definition showEmptyState :: "page \<Rightarrow> page" where
  "showEmptyState s = s\<lparr>emptyStateHidden := False, roomGrid := []\<rparr>"

definition hideEmptyState :: "page \<Rightarrow> page" where
  "hideEmptyState s = s\<lparr>emptyStateHidden := True\<rparr>"

definition renderRoomCards :: "row list \<Rightarrow> page \<Rightarrow> page" where
  "renderRoomCards rooms s = s\<lparr>roomGrid := rooms\<rparr>"

text \<open>\<open>clock\<close> is the locale time string of the moment of the call.\<close>

definition updateLastUpdateTime :: "string \<Rightarrow> page \<Rightarrow> page" where
  "updateLastUpdateTime clock s = s\<lparr>lastUpdateText := ''Last updated: '' @ clock\<rparr>"

text \<open>The bullet character of the status line, as its UTF-8 bytes.\<close>

definition bullet :: string where
  "bullet = [char_of (226 :: nat), char_of (128 :: nat), char_of (162 :: nat)]"

text \<open>
  \<^verbatim>\<open>loadRoomData()\<close> runs in two parts. The first runs when it is invoked and ends at the
  \<^verbatim>\<open>await\<close>: the guard, the flag, the controls, and the call of
  \<^verbatim>\<open>fetchLatestRoomCounts\<close>, which sends the query when the client is set.
\<close>

definition loadRoomData_invoke :: "page \<Rightarrow> page" where
  "loadRoomData_invoke s =
     (if isLoading s then s
      else
        (let s1 = hideErrorMessage (showLoadingIndicator (s\<lparr>isLoading := True, refreshBtnDisabled := True\<rparr>))
         in s1\<lparr>fetchCalls := fetchCalls s1 + (if supabaseClient s1 then 1 else 0),
                awaiting := awaiting s1 + 1\<rparr>))"

text \<open>
  The second part runs when the awaited promise settles: the rest of the \<^verbatim>\<open>try\<close> block
  or the \<^verbatim>\<open>catch\<close> block, and then the \<^verbatim>\<open>finally\<close> block.
\<close>

definition loadRoomData_settle :: "string \<Rightarrow> fetchOutcome \<Rightarrow> page \<Rightarrow> page" where
  "loadRoomData_settle clock outcome s =
     (let s1 =
        (case fetchLatestRoomCounts (supabaseClient s) outcome of
           Inr rooms \<Rightarrow>
             updateLastUpdateTime clock
               (if length rooms = 0
                then updateStatus ''No rooms with data'' ''warning'' (showEmptyState s)
                else updateStatus (''Connected '' @ bullet @ '' '' @ showNat (length rooms) @ '' room(s)'')
                       ''success'' (renderRoomCards rooms (hideEmptyState s)))
         | Inl e \<Rightarrow>
             showEmptyState
               (showError (''Failed to load room data: '' @ message e)
                 (updateStatus ''Failed to load data'' ''error'' s)))
      in hideLoadingIndicator (s1\<lparr>isLoading := False, refreshBtnDisabled := False, awaiting := awaiting s1 - 1\<rparr>))"

text \<open>
  What can happen to the page: the refresh is requested (a click on the button, the
  initial load, the timer), or the promise of a suspended invocation settles.
\<close>

datatype event = Refresh | Settle string fetchOutcome

fun step :: "page \<Rightarrow> event \<Rightarrow> page" where
  "step s Refresh = loadRoomData_invoke s"
| "step s (Settle clock outcome) = (if awaiting s = 0 then s else loadRoomData_settle clock outcome s)"

definition run :: "page \<Rightarrow> event list \<Rightarrow> page" where
  "run s evs = foldl step s evs"

section \<open>The reduction as described, and sample inputs\<close>

text \<open>
  The reduction in the words of its description: a record whose room has not been seen yet
  in this pass is retained, a later record of a room already seen is discarded, and the
  retained records stay in the order in which their rooms were first seen. \<open>seen\<close> lists the
  room keys seen so far.
\<close>

fun firstSeen :: "string list \<Rightarrow> row list \<Rightarrow> row list" where
  "firstSeen seen [] = []"
| "firstSeen seen (record # rest) =
     (if roomKey record \<in> set seen then firstSeen seen rest
      else record # firstSeen (roomKey record # seen) rest)"

text \<open>A count that is a number and not negative.\<close>

definition countNonNegative :: "row \<Rightarrow> bool" where
  "countNonNegative r = (case getProp r ''people_count'' of JNum n \<Rightarrow> 0 \<le> n | _ \<Rightarrow> False)"

text \<open>
  Sample rows: a reading with the three selected columns, and the same reading with its
  count under the other column name. Their timestamps are time values in milliseconds,
  read back by \<open>epochMillis\<close>.
\<close>

definition reading :: "string \<Rightarrow> int \<Rightarrow> int \<Rightarrow> row" where
  "reading rid t c = [(''room_id'', JStr rid), (''timestamp'', JNum t), (''people_count'', JNum c)]"

definition readingAlias :: "string \<Rightarrow> int \<Rightarrow> int \<Rightarrow> row" where
  "readingAlias rid t c = [(''room_id'', JStr rid), (''timestamp'', JNum t), (''person_count'', JNum c)]"

definition epochMillis :: "row \<Rightarrow> int" where
  "epochMillis r = (case getProp r ''timestamp'' of JNum n \<Rightarrow> n | _ \<Rightarrow> 0)"

text \<open>
  A page that is idle after a successful load, with the cards of the given rooms in the
  grid.
\<close>

definition samplePage :: "row list \<Rightarrow> page" where
  "samplePage rooms =
     \<lparr>supabaseClient = True, isLoading = False, refreshBtnDisabled = False,
      loadingIndicatorHidden = True, errorMessageText = [], errorMessageHidden = True,
      emptyStateHidden = True, roomGrid = rooms, statusText = ''Connected'',
      statusColor = ''#10b981'', lastUpdateText = ''Last updated: 09:59:30'',
      fetchCalls = 1, awaiting = 0\<rparr>"

text \<open>A sample rendering of the time of day, for the inputs on which it is not consulted.\<close>

definition sampleTimeString :: "int \<Rightarrow> string" where
  "sampleTimeString t = ''12:00:00 AM''"

text \<open>
  The flag and the number of suspended invocations agree: one invocation waits exactly
  when \<^verbatim>\<open>isLoading\<close> is set.
\<close>

definition consistent :: "page \<Rightarrow> bool" where
  "consistent s = (awaiting s = (if isLoading s then 1 else 0))"

section \<open>Facts about the grouping\<close>

lemma putProp_fresh: "k \<notin> fst ` set m \<Longrightarrow> putProp m k v = m @ [(k, v)]"
  by (induction m) auto

lemma groupRows_firstSeen:
  "set seen = fst ` set m \<union> set objectPrototypeKeys \<Longrightarrow>
   groupRows m rows = m @ map (\<lambda>r. (roomKey r, r)) (firstSeen seen rows)"
proof (induction rows arbitrary: m seen)
  case Nil
  then show ?case by simp
next
  case (Cons r rows)
  show ?case
  proof (cases "roomKey r \<in> set seen")
    case True
    then have "truthyLookup m (roomKey r)"
      using Cons.prems by (auto simp: truthyLookup_def)
    then show ?thesis
      using True Cons.IH [OF Cons.prems] by simp
  next
    case False
    then have fresh: "\<not> truthyLookup m (roomKey r)" and nk: "roomKey r \<notin> fst ` set m"
      using Cons.prems by (auto simp: truthyLookup_def)
    have "set (roomKey r # seen) = fst ` set (m @ [(roomKey r, r)]) \<union> set objectPrototypeKeys"
      using Cons.prems by auto
    from Cons.IH [OF this] show ?thesis
      using False fresh by (simp add: putProp_fresh [OF nk])
  qed
qed

lemma insort_key_map:
  "insort_key k (f x) (map f xs) = map f (insort_key (\<lambda>y. k (f y)) x xs)"
  by (induction xs) auto

lemma sort_key_map:
  "sort_key k (map f xs) = map f (sort_key (\<lambda>y. k (f y)) xs)"
  by (induction xs) (auto simp: insort_key_map)

lemma latestPerRoom_firstSeen:
  "latestPerRoom rows =
     sort_key (\<lambda>r. decimalValue (roomKey r))
       (filter (\<lambda>r. isArrayIndex (roomKey r)) (firstSeen objectPrototypeKeys rows))
     @ filter (\<lambda>r. \<not> isArrayIndex (roomKey r)) (firstSeen objectPrototypeKeys rows)"
proof -
  have "groupRows [] rows = map (\<lambda>r. (roomKey r, r)) (firstSeen objectPrototypeKeys rows)"
    using groupRows_firstSeen [of objectPrototypeKeys "[]" rows] by simp
  then show ?thesis
    by (simp add: latestPerRoom_def objectValues_def ownKeysOrder_def filter_map sort_key_map o_def)
qed

lemma set_latestPerRoom: "set (latestPerRoom rows) = set (firstSeen objectPrototypeKeys rows)"
  by (auto simp: latestPerRoom_firstSeen)

lemma firstSeen_subset: "set (firstSeen seen rows) \<subseteq> set rows"
  by (induction seen rows rule: firstSeen.induct) auto

lemma firstSeen_not_seen: "q \<in> set (firstSeen seen rows) \<Longrightarrow> roomKey q \<notin> set seen"
  by (induction seen rows rule: firstSeen.induct) (auto split: if_splits)

lemma firstSeen_find:
  "q \<in> set (firstSeen seen rows) \<Longrightarrow> find (\<lambda>x. roomKey x = roomKey q) rows = Some q"
proof (induction seen rows rule: firstSeen.induct)
  case (1 seen)
  then show ?case by simp
next
  case (2 seen r rest)
  show ?case
  proof (cases "roomKey r \<in> set seen")
    case True
    with 2 have q: "q \<in> set (firstSeen seen rest)" by simp
    then have "roomKey q \<notin> set seen" by (rule firstSeen_not_seen)
    with True have "roomKey r \<noteq> roomKey q" by auto
    with 2 True q show ?thesis by simp
  next
    case False
    show ?thesis
    proof (cases "q = r")
      case True
      then show ?thesis by simp
    next
      case ne: False
      with 2 False have q: "q \<in> set (firstSeen (roomKey r # seen) rest)" by simp
      then have "roomKey q \<notin> set (roomKey r # seen)" by (rule firstSeen_not_seen)
      then have "roomKey r \<noteq> roomKey q" by auto
      with 2 False q show ?thesis by simp
    qed
  qed
qed

lemma firstSeen_distinct: "distinct (map roomKey (firstSeen seen rows))"
proof (induction seen rows rule: firstSeen.induct)
  case (1 seen)
  then show ?case by simp
next
  case (2 seen r rest)
  have "roomKey r \<notin> roomKey ` set (firstSeen (roomKey r # seen) rest)"
  proof
    assume "roomKey r \<in> roomKey ` set (firstSeen (roomKey r # seen) rest)"
    then obtain q where q: "q \<in> set (firstSeen (roomKey r # seen) rest)" and k: "roomKey r = roomKey q"
      by auto
    from firstSeen_not_seen [OF q] k show False by simp
  qed
  with 2 show ?case by simp
qed

lemma firstSeen_covers:
  "r \<in> set rows \<Longrightarrow> roomKey r \<notin> set seen \<Longrightarrow> roomKey r \<in> roomKey ` set (firstSeen seen rows)"
  by (induction seen rows rule: firstSeen.induct) (auto split: if_splits)

lemma latestPerRoom_distinct: "distinct (map roomKey (latestPerRoom rows))"
proof -
  let ?F = "firstSeen objectPrototypeKeys rows"
  have d: "distinct ?F" and inj: "inj_on roomKey (set ?F)"
    using firstSeen_distinct [of objectPrototypeKeys rows] by (simp_all add: distinct_map)
  have "distinct (latestPerRoom rows)"
    using d by (auto simp: latestPerRoom_firstSeen)
  moreover have "inj_on roomKey (set (latestPerRoom rows))"
    using inj by (simp add: set_latestPerRoom)
  ultimately show ?thesis by (simp add: distinct_map)
qed

lemma sorted_wrt_find:
  "sorted_wrt P xs \<Longrightarrow> find Q xs = Some q \<Longrightarrow> r \<in> set xs \<Longrightarrow> Q r \<Longrightarrow> r = q \<or> P q r"
  by (induction xs) (auto split: if_splits)

lemma latestPerRoom_single:
  "roomKey r \<notin> set objectPrototypeKeys \<Longrightarrow> latestPerRoom [r] = [r]"
  by (simp add: latestPerRoom_firstSeen)

lemma latestPerRoom_subset: "set (latestPerRoom rows) \<subseteq> set rows"
  using firstSeen_subset [of objectPrototypeKeys rows] by (simp add: set_latestPerRoom)

lemma latestPerRoom_no_index:
  assumes "\<forall>r \<in> set rows. \<not> isArrayIndex (roomKey r)"
  shows "latestPerRoom rows = firstSeen objectPrototypeKeys rows"
proof -
  have "\<forall>q \<in> set (firstSeen objectPrototypeKeys rows). \<not> isArrayIndex (roomKey q)"
    using assms firstSeen_subset [of objectPrototypeKeys rows] by blast
  then show ?thesis
    by (simp add: latestPerRoom_firstSeen filter_False filter_True)
qed

lemma latestPerRoom_key_not_inherited:
  "q \<in> set (latestPerRoom rows) \<Longrightarrow> roomKey q \<notin> set objectPrototypeKeys"
  using firstSeen_not_seen [of q objectPrototypeKeys rows] by (simp add: set_latestPerRoom)

lemma latestPerRoom_inherited_single:
  "roomKey r \<in> set objectPrototypeKeys \<Longrightarrow> latestPerRoom [r] = []"
  by (simp add: latestPerRoom_firstSeen)

lemma latestPerRoom_first_row:
  assumes "find (\<lambda>x. roomKey x = roomKey r) rows = Some r"
    and "roomKey r \<notin> set objectPrototypeKeys"
  shows "r \<in> set (latestPerRoom rows)"
proof -
  from assms(1) have "r \<in> set rows"
    by (auto simp: find_Some_iff)
  then have "roomKey r \<in> roomKey ` set (firstSeen objectPrototypeKeys rows)"
    using assms(2) by (rule firstSeen_covers)
  then obtain q where q: "q \<in> set (firstSeen objectPrototypeKeys rows)" and k: "roomKey q = roomKey r"
    by auto
  from firstSeen_find [OF q] k assms(1) have "q = r"
    by simp
  with q show ?thesis
    by (simp add: set_latestPerRoom)
qed

lemmas eval_rows = latestPerRoom_def objectValues_def ownKeysOrder_def roomKey_def getProp_def
  truthyLookup_def objectPrototypeKeys_def isArrayIndex_def isDigit_def decimalValue_def digitVal_def
  reading_def readingAlias_def

section \<open>The latest reading of a room wins\<close>

text \<open>
  Claim C1. When the fetched rows are ordered by observation time, most recent first,
  the grouping returns at most one record per room, and each returned record is the first
  row of its room in the input; so its observation time is at least that of every other
  input row of the same room, and of two rows of a room with equal times the one met first
  is the one retained. Every room that has a row is returned with such a record, except
  the rooms named like an inherited property. \<open>observedAt\<close> is the instant the data store
  reads from a row's timestamp.
\<close>

theorem latest_wins:
  assumes "sorted_wrt (\<lambda>a b. observedAt b \<le> observedAt a) rows"
  shows "distinct (map roomKey (latestPerRoom rows)) \<and>
         (\<forall>q \<in> set (latestPerRoom rows).
            q \<in> set rows \<and>
            find (\<lambda>x. roomKey x = roomKey q) rows = Some q \<and>
            (\<forall>r \<in> set rows. roomKey r = roomKey q \<longrightarrow> (observedAt r :: int) \<le> observedAt q)) \<and>
         (\<forall>r \<in> set rows. roomKey r \<notin> set objectPrototypeKeys \<longrightarrow>
            roomKey r \<in> roomKey ` set (latestPerRoom rows))"
proof (intro conjI ballI impI)
  show "distinct (map roomKey (latestPerRoom rows))"
    by (rule latestPerRoom_distinct)
next
  fix r assume "r \<in> set rows" and "roomKey r \<notin> set objectPrototypeKeys"
  then show "roomKey r \<in> roomKey ` set (latestPerRoom rows)"
    unfolding set_latestPerRoom by (rule firstSeen_covers)
next
  fix q assume "q \<in> set (latestPerRoom rows)"
  then have q: "q \<in> set (firstSeen objectPrototypeKeys rows)"
    by (simp add: set_latestPerRoom)
  then show "q \<in> set rows"
    using firstSeen_subset by blast
  from q show f: "find (\<lambda>x. roomKey x = roomKey q) rows = Some q"
    by (rule firstSeen_find)
  fix r assume "r \<in> set rows" and "roomKey r = roomKey q"
  with sorted_wrt_find [OF assms f] show "observedAt r \<le> observedAt q"
    by auto
qed

theorem latest_wins_witness:
  "sorted_wrt (\<lambda>a b. epochMillis b \<le> epochMillis a)
     [reading ''A'' 900 3, reading ''B'' 900 0, reading ''A'' 900 4, reading ''A'' 840 7] \<and>
   latestPerRoom [reading ''A'' 900 3, reading ''B'' 900 0, reading ''A'' 900 4, reading ''A'' 840 7]
     = [reading ''A'' 900 3, reading ''B'' 900 0] \<and>
   find (\<lambda>x. roomKey x = roomKey (reading ''A'' 900 3))
     [reading ''A'' 900 3, reading ''B'' 900 0, reading ''A'' 900 4, reading ''A'' 840 7]
     = Some (reading ''A'' 900 3) \<and>
   epochMillis (reading ''A'' 900 4) \<le> epochMillis (reading ''A'' 900 3) \<and>
   epochMillis (reading ''A'' 840 7) \<le> epochMillis (reading ''A'' 900 3)"
proof -
  let ?rows = "[reading ''A'' 900 3, reading ''B'' 900 0, reading ''A'' 900 4, reading ''A'' 840 7]"
  let ?q = "reading ''A'' 900 3"
  have s: "sorted_wrt (\<lambda>a b. epochMillis b \<le> epochMillis a) ?rows"
    by (simp add: epochMillis_def getProp_def reading_def)
  have out: "latestPerRoom ?rows = [?q, reading ''B'' 900 0]"
    by (simp add: eval_rows)
  have q: "?q \<in> set (latestPerRoom ?rows)"
    unfolding out by simp
  have r1: "reading ''A'' 900 4 \<in> set ?rows" and r2: "reading ''A'' 840 7 \<in> set ?rows"
    by simp_all
  have k1: "roomKey (reading ''A'' 900 4) = roomKey ?q"
    and k2: "roomKey (reading ''A'' 840 7) = roomKey ?q"
    by (simp_all add: roomKey_def getProp_def reading_def)
  note wins = latest_wins [OF s]
  from wins q have f: "find (\<lambda>x. roomKey x = roomKey ?q) ?rows = Some ?q"
    by blast
  from wins q r1 k1 have t1: "epochMillis (reading ''A'' 900 4) \<le> epochMillis ?q"
    by blast
  from wins q r2 k2 have t2: "epochMillis (reading ''A'' 840 7) \<le> epochMillis ?q"
    by blast
  from s out f t1 t2 show ?thesis
    by blast
qed

section \<open>The count column and its other name\<close>




section \<open>Negative and non-numeric counts\<close>

text \<open>
  Claim C4, as stated, fails: a single fetched row with the count \<open>-1\<close> is returned by
  \<^verbatim>\<open>fetchLatestRoomCounts\<close> as the record of its room, with the count \<open>-1\<close>.
\<close>

theorem negative_count_counterexample:
  "fetchLatestRoomCounts True (Resolved \<lparr>data = Some [reading ''A'' 900 (- 1)], error = None\<rparr>)
     = Inr [reading ''A'' 900 (- 1)] \<and>
   getProp (reading ''A'' 900 (- 1)) ''people_count'' = JNum (- 1) \<and>
   \<not> countNonNegative (reading ''A'' 900 (- 1))"
  by (simp add: fetchLatestRoomCounts_def countNonNegative_def eval_rows)

text \<open>
  Claim C4, amended. The grouping does not look at counts: every record it returns is one
  of the fetched rows, unchanged; every returned record has a count that is a number and
  not negative whenever every fetched row has; and the first row of a room (so also the
  only row of a room) is retained whatever its count is, unless the room is named like an
  inherited property.
\<close>

theorem counts_not_validated:
  "set (latestPerRoom rows) \<subseteq> set rows \<and>
   ((\<forall>r \<in> set rows. countNonNegative r) \<longrightarrow> (\<forall>q \<in> set (latestPerRoom rows). countNonNegative q)) \<and>
   (find (\<lambda>x. roomKey x = roomKey r) rows = Some r \<and> roomKey r \<notin> set objectPrototypeKeys \<longrightarrow>
      r \<in> set (latestPerRoom rows))"
  using latestPerRoom_subset [of rows] latestPerRoom_first_row [of r rows] by blast

theorem counts_not_validated_witness:
  "countNonNegative (reading ''A'' 900 3) \<and> countNonNegative (reading ''B'' 840 0) \<and>
   latestPerRoom [reading ''A'' 900 3, reading ''B'' 840 0] = [reading ''A'' 900 3, reading ''B'' 840 0] \<and>
   find (\<lambda>x. roomKey x = roomKey (reading ''C'' 840 (- 1))) [reading ''A'' 900 3, reading ''C'' 840 (- 1)]
     = Some (reading ''C'' 840 (- 1)) \<and>
   roomKey (reading ''C'' 840 (- 1)) \<notin> set objectPrototypeKeys \<and>
   reading ''C'' 840 (- 1) \<in> set (latestPerRoom [reading ''A'' 900 3, reading ''C'' 840 (- 1)])"
proof -
  let ?c = "reading ''C'' 840 (- 1)"
  let ?rows = "[reading ''A'' 900 3, ?c]"
  have f: "find (\<lambda>x. roomKey x = roomKey ?c) ?rows = Some ?c"
    by (simp add: roomKey_def getProp_def reading_def)
  have k: "roomKey ?c \<notin> set objectPrototypeKeys"
    by (simp add: eval_rows)
  from counts_not_validated [of ?rows ?c] f k have s: "?c \<in> set (latestPerRoom ?rows)"
    by blast
  have n: "countNonNegative (reading ''A'' 900 3)" "countNonNegative (reading ''B'' 840 0)"
    by (simp_all add: countNonNegative_def getProp_def reading_def)
  have out: "latestPerRoom [reading ''A'' 900 3, reading ''B'' 840 0] = [reading ''A'' 900 3, reading ''B'' 840 0]"
    by (simp add: eval_rows)
  from n out f k s show ?thesis by blast
qed

section \<open>The order of the returned rooms\<close>

text \<open>
  Claim C7, as stated, fails: with room \<^verbatim>\<open>2\<close> seen before room \<^verbatim>\<open>1\<close>, the returned
  sequence has room \<^verbatim>\<open>1\<close> before room \<^verbatim>\<open>2\<close>, while the order of first sight is \<^verbatim>\<open>2\<close>,
  \<^verbatim>\<open>1\<close>.
\<close>

theorem result_order_counterexample:
  "latestPerRoom [reading ''2'' 900 1, reading ''1'' 840 1] = [reading ''1'' 840 1, reading ''2'' 900 1] \<and>
   firstSeen [] [reading ''2'' 900 1, reading ''1'' 840 1] = [reading ''2'' 900 1, reading ''1'' 840 1]"
  by (simp add: eval_rows)

text \<open>
  Claim C7, amended. The returned sequence lists first the rooms whose key is an array
  index, in ascending numeric order, and then all other rooms in the order in which they
  were first seen (the inherited property names counting as seen from the start). When no
  fetched row has an array index as its room key, the returned sequence is exactly the
  first-seen order.
\<close>

theorem result_order:
  "latestPerRoom rows =
     sort_key (\<lambda>r. decimalValue (roomKey r))
       (filter (\<lambda>r. isArrayIndex (roomKey r)) (firstSeen objectPrototypeKeys rows))
     @ filter (\<lambda>r. \<not> isArrayIndex (roomKey r)) (firstSeen objectPrototypeKeys rows) \<and>
   ((\<forall>r \<in> set rows. \<not> isArrayIndex (roomKey r)) \<longrightarrow>
      latestPerRoom rows = firstSeen objectPrototypeKeys rows)"
  using latestPerRoom_firstSeen [of rows] latestPerRoom_no_index [of rows] by blast

theorem result_order_witness:
  "\<not> isArrayIndex (roomKey (reading ''B'' 900 1)) \<and> \<not> isArrayIndex (roomKey (reading ''A'' 840 2)) \<and>
   latestPerRoom [reading ''B'' 900 1, reading ''A'' 840 2, reading ''B'' 780 3]
     = firstSeen objectPrototypeKeys [reading ''B'' 900 1, reading ''A'' 840 2, reading ''B'' 780 3] \<and>
   firstSeen objectPrototypeKeys [reading ''B'' 900 1, reading ''A'' 840 2, reading ''B'' 780 3]
     = [reading ''B'' 900 1, reading ''A'' 840 2]"
proof -
  let ?rows = "[reading ''B'' 900 1, reading ''A'' 840 2, reading ''B'' 780 3]"
  have b: "\<not> isArrayIndex (roomKey (reading ''B'' 900 1))"
    and a: "\<not> isArrayIndex (roomKey (reading ''A'' 840 2))"
    and b': "\<not> isArrayIndex (roomKey (reading ''B'' 780 3))"
    by (simp_all add: eval_rows)
  have h: "\<forall>r \<in> set ?rows. \<not> isArrayIndex (roomKey r)"
    using a b b' by simp
  have f: "firstSeen objectPrototypeKeys ?rows = [reading ''B'' 900 1, reading ''A'' 840 2]"
    by (simp add: eval_rows)
  from result_order [of ?rows] h have "latestPerRoom ?rows = firstSeen objectPrototypeKeys ?rows"
    by blast
  with a b f show ?thesis by blast
qed

section \<open>Rooms named like an inherited property\<close>

text \<open>
  Claim C10. A fetched row whose \<^verbatim>\<open>room_id\<close> is the name of a property inherited from
  \<^verbatim>\<open>Object.prototype\<close> is never retained: whatever rows are fetched, no returned record has
  that room, the row itself is not returned, and when it is the only row fetched the
  result is the empty list.
\<close>

theorem prototype_named_room_absent:
  assumes "name \<in> set objectPrototypeKeys" and "getProp r ''room_id'' = JStr name"
  shows "(\<forall>q \<in> set (latestPerRoom rows). roomKey q \<noteq> name) \<and>
         r \<notin> set (latestPerRoom rows) \<and>
         latestPerRoom [r] = [] \<and>
         fetchLatestRoomCounts True (Resolved \<lparr>data = Some [r], error = None\<rparr>) = Inr []"
proof -
  have k: "roomKey r = name"
    using assms(2) by (simp add: roomKey_def)
  have a: "\<forall>q \<in> set (latestPerRoom rows). roomKey q \<noteq> name"
    using assms(1) latestPerRoom_key_not_inherited by blast
  then have b: "r \<notin> set (latestPerRoom rows)"
    using k by blast
  have c: "latestPerRoom [r] = []"
    using assms(1) k by (simp add: latestPerRoom_inherited_single)
  then have d: "fetchLatestRoomCounts True (Resolved \<lparr>data = Some [r], error = None\<rparr>) = Inr []"
    by (simp add: fetchLatestRoomCounts_def)
  from a b c d show ?thesis by blast
qed

theorem prototype_named_room_absent_witness:
  "''toString'' \<in> set objectPrototypeKeys \<and>
   getProp (reading ''toString'' 900 3) ''room_id'' = JStr ''toString'' \<and>
   reading ''toString'' 900 3 \<notin> set (latestPerRoom [reading ''toString'' 900 3, reading ''A'' 840 1]) \<and>
   latestPerRoom [reading ''toString'' 900 3] = [] \<and>
   fetchLatestRoomCounts True (Resolved \<lparr>data = Some [reading ''toString'' 900 3], error = None\<rparr>) = Inr []"
proof -
  have n: "''toString'' \<in> set objectPrototypeKeys"
    by (simp add: objectPrototypeKeys_def)
  have g: "getProp (reading ''toString'' 900 3) ''room_id'' = JStr ''toString''"
    by (simp add: getProp_def reading_def)
  from prototype_named_room_absent [OF n g, of "[reading ''toString'' 900 3, reading ''A'' 840 1]"] n g
  show ?thesis by blast
qed

section \<open>Occupancy classification\<close>

text \<open>
  Claim C5. For every count that is not negative the classifier returns one of the three
  levels: \<open>empty\<close> for 0, \<open>moderate\<close> for 1 to 5, \<open>full\<close> above 5, the bound 5 belonging to
  the lower level; and a larger count never gets a lower level.
\<close>

theorem occupancy_classification:
  assumes "0 \<le> count"
  shows "status (getOccupancyStatus count) =
           (if count = 0 then ''empty'' else if count \<le> 5 then ''moderate'' else ''full'') \<and>
         status (getOccupancyStatus count) \<in> {''empty'', ''moderate'', ''full''} \<and>
         (\<forall>b. count < b \<longrightarrow> tierRank (status (getOccupancyStatus count)) \<le> tierRank (status (getOccupancyStatus b)))"
  using assms by (auto simp: getOccupancyStatus_def tierRank_def)

theorem occupancy_classification_witness:
  "(0::int) \<le> 5 \<and> (5::int) < 6 \<and>
   status (getOccupancyStatus 0) = ''empty'' \<and>
   status (getOccupancyStatus 5) = ''moderate'' \<and>
   status (getOccupancyStatus 6) = ''full'' \<and>
   tierRank (status (getOccupancyStatus 5)) \<le> tierRank (status (getOccupancyStatus 6))"
proof -
  have h0: "(0::int) \<le> 0" and h5: "(0::int) \<le> 5" and h6: "(0::int) \<le> 6" and lt: "(5::int) < 6"
    by simp_all
  from occupancy_classification [OF h0] have a: "status (getOccupancyStatus 0) = ''empty''"
    by simp
  from occupancy_classification [OF h5] have b: "status (getOccupancyStatus 5) = ''moderate''"
    by simp
  from occupancy_classification [OF h6] have c: "status (getOccupancyStatus 6) = ''full''"
    by simp
  from occupancy_classification [OF h5]
  have "\<forall>b. 5 < b \<longrightarrow> tierRank (status (getOccupancyStatus 5)) \<le> tierRank (status (getOccupancyStatus b))"
    by blast
  with lt have d: "tierRank (status (getOccupancyStatus 5)) \<le> tierRank (status (getOccupancyStatus 6))"
    by blast
  from h5 lt a b c d show ?thesis by blast
qed

section \<open>Time labels\<close>

lemmas eval_format = formatTimestamp_def showInt_def showNat.simps digitChar_def

lemma malformed_timestamp_label: "formatTimestamp toLocaleTimeString now None = ''Invalid Date''"
  by (simp add: formatTimestamp_def)

text \<open>
  Claim C8, as stated, fails: an observation 30 seconds ahead of the clock is labelled
  \<^verbatim>\<open>-30s ago\<close>, not \<^verbatim>\<open>0s ago\<close>.
\<close>

theorem future_timestamp_counterexample:
  "formatTimestamp sampleTimeString 1000000 (Some 1030000) = ''-30s ago'' \<and>
   formatTimestamp sampleTimeString 1000000 (Some 1030000) \<noteq> ''0s ago''"
  by (simp add: eval_format)

text \<open>
  Claim C8, amended. For every observation time that lies in the future of the clock the
  formatter returns the label made of the negative number of whole seconds (rounded
  down) followed by \<^verbatim>\<open>s ago\<close>. The formatter returns a label on every input.
\<close>

theorem future_timestamp_label:
  assumes "now < d"
  shows "formatTimestamp toLocaleTimeString now (Some d)
           = CHR ''-'' # showNat (nat (- ((now - d) div 1000))) @ ''s ago'' \<and>
         (now - d) div 1000 < 0"
proof -
  from assms have "(now - d) div 60000 < 0" and "(now - d) div 1000 < 0"
    by (simp_all add: div_neg_pos_less0)
  then show ?thesis
    by (simp add: formatTimestamp_def showInt_def Let_def)
qed

theorem future_timestamp_label_witness:
  "(1000000::int) < 1030000 \<and>
   formatTimestamp sampleTimeString 1000000 (Some 1030000)
      = CHR ''-'' # showNat (nat (- ((1000000 - 1030000) div 1000))) @ ''s ago''"
proof -
  have h: "(1000000::int) < 1030000" by simp
  from future_timestamp_label [OF h, of sampleTimeString] h show ?thesis by blast
qed

text \<open>
  Claim C9, as stated, fails: the formatter returns a label and nothing else, and the label
  does not tell whether the observation is older than five minutes: an observation exactly
  300000 ms old and one of 300001 ms get the same label.
\<close>

theorem stale_flag_counterexample:
  "formatTimestamp sampleTimeString 300000 (Some 0) = ''5m ago'' \<and>
   formatTimestamp sampleTimeString 300001 (Some 0) = ''5m ago'' \<and>
   \<not> (300000 - 0 > (300000 :: int)) \<and> (300001 - 0 > (300000 :: int))"
  by (simp add: eval_format)

text \<open>
  Claim C9, amended. The formatter computes no staleness flag; for an observation ten
  minutes before the clock it returns the label \<^verbatim>\<open>10m ago\<close>.
\<close>

theorem ten_minutes_label:
  "formatTimestamp toLocaleTimeString (d + 600000) (Some d) = ''10m ago''"
  by (simp add: eval_format)

section \<open>The refresh cycle\<close>

lemmas page_ops = updateStatus_def showLoadingIndicator_def hideLoadingIndicator_def showError_def
  hideErrorMessage_def showEmptyState_def hideEmptyState_def renderRoomCards_def
  updateLastUpdateTime_def

lemma invoke_while_loading: "isLoading s \<Longrightarrow> loadRoomData_invoke s = s"
  by (simp add: loadRoomData_invoke_def)

lemma invoke_idle:
  "\<not> isLoading s \<Longrightarrow>
   isLoading (loadRoomData_invoke s) \<and>
   awaiting (loadRoomData_invoke s) = awaiting s + 1 \<and>
   fetchCalls (loadRoomData_invoke s) = fetchCalls s + (if supabaseClient s then 1 else 0) \<and>
   supabaseClient (loadRoomData_invoke s) = supabaseClient s"
  by (simp add: loadRoomData_invoke_def page_ops Let_def)

lemma settle_fields:
  "\<not> isLoading (loadRoomData_settle clock outcome s) \<and>
   awaiting (loadRoomData_settle clock outcome s) = awaiting s - 1 \<and>
   fetchCalls (loadRoomData_settle clock outcome s) = fetchCalls s \<and>
   supabaseClient (loadRoomData_settle clock outcome s) = supabaseClient s"
  by (simp add: loadRoomData_settle_def page_ops Let_def split: sum.splits)

lemma step_consistent: "consistent s \<Longrightarrow> consistent (step s ev)"
proof (cases ev)
  case Refresh
  assume "consistent s"
  then show ?thesis
    using Refresh invoke_while_loading [of s] invoke_idle [of s]
    by (cases "isLoading s") (simp_all add: consistent_def)
next
  case (Settle clock outcome)
  assume "consistent s"
  then show ?thesis
    using Settle settle_fields [of clock outcome s]
    by (cases "isLoading s") (simp_all add: consistent_def)
qed

lemma run_consistent: "consistent s \<Longrightarrow> consistent (run s evs)"
  unfolding run_def by (induction evs arbitrary: s) (simp_all add: step_consistent)

lemma run_refreshes_while_loading:
  "isLoading s \<Longrightarrow> run s (replicate n Refresh) = s"
  unfolding run_def by (induction n) (simp_all add: invoke_while_loading)

text \<open>
  Claim C2. On an idle page with the client set: a second invocation of the refresh while
  the first is suspended changes nothing, so two requests (and any number of further ones)
  before the first settles send exactly one query; along every sequence of requests and
  settlements at most one invocation is suspended; and when the fetch settles, whatever
  the outcome, the flag is cleared and the next request sends a query again.
\<close>

theorem at_most_one_in_flight:
  assumes "supabaseClient s" and "\<not> isLoading s" and "awaiting s = 0"
  shows "loadRoomData_invoke (loadRoomData_invoke s) = loadRoomData_invoke s \<and>
         fetchCalls (run s [Refresh, Refresh]) = fetchCalls s + 1 \<and>
         (\<forall>n. fetchCalls (run s (Refresh # replicate n Refresh)) = fetchCalls s + 1) \<and>
         (\<forall>evs. awaiting (run s evs) \<le> 1) \<and>
         (\<forall>clock outcome. \<not> isLoading (run s [Refresh, Settle clock outcome]) \<and>
            fetchCalls (run s [Refresh, Settle clock outcome, Refresh]) = fetchCalls s + 2)"
proof (intro conjI allI)
  note i = invoke_idle [OF assms(2)]
  from i show twice: "loadRoomData_invoke (loadRoomData_invoke s) = loadRoomData_invoke s"
    by (simp add: invoke_while_loading)
  from i assms(1) have one: "fetchCalls (loadRoomData_invoke s) = fetchCalls s + 1"
    by simp
  with twice show "fetchCalls (run s [Refresh, Refresh]) = fetchCalls s + 1"
    by (simp add: run_def)
  fix n
  have "run s (Refresh # replicate n Refresh) = run (loadRoomData_invoke s) (replicate n Refresh)"
    by (simp add: run_def)
  also have "\<dots> = loadRoomData_invoke s"
    using i by (simp add: run_refreshes_while_loading)
  finally show "fetchCalls (run s (Refresh # replicate n Refresh)) = fetchCalls s + 1"
    using one by simp
next
  fix evs
  have "consistent s"
    using assms by (simp add: consistent_def)
  then have "consistent (run s evs)"
    by (rule run_consistent)
  then show "awaiting (run s evs) \<le> 1"
    by (simp add: consistent_def split: if_splits)
next
  fix clock outcome
  note i = invoke_idle [OF assms(2)]
  let ?t = "loadRoomData_settle clock outcome (loadRoomData_invoke s)"
  have r: "run s [Refresh, Settle clock outcome] = ?t"
    using i assms(3) by (simp add: run_def)
  show "\<not> isLoading (run s [Refresh, Settle clock outcome])"
    unfolding r using settle_fields [of clock outcome "loadRoomData_invoke s"] by simp
  have "run s [Refresh, Settle clock outcome, Refresh] = loadRoomData_invoke ?t"
    using i assms(3) by (simp add: run_def)
  then show "fetchCalls (run s [Refresh, Settle clock outcome, Refresh]) = fetchCalls s + 2"
    using settle_fields [of clock outcome "loadRoomData_invoke s"] invoke_idle [of ?t] i assms(1)
    by simp
qed

theorem at_most_one_in_flight_witness:
  "supabaseClient (samplePage []) \<and> \<not> isLoading (samplePage []) \<and> awaiting (samplePage []) = 0 \<and>
   fetchCalls (run (samplePage []) [Refresh, Refresh]) = fetchCalls (samplePage []) + 1 \<and>
   awaiting (run (samplePage []) [Refresh, Refresh]) \<le> 1 \<and>
   \<not> isLoading (run (samplePage []) [Refresh, Settle ''10:00:00'' (Rejected (JsError ''Failed to fetch''))])"
proof -
  have c: "supabaseClient (samplePage [])" and l: "\<not> isLoading (samplePage [])"
    and a: "awaiting (samplePage []) = 0"
    by (simp_all add: samplePage_def)
  note t = at_most_one_in_flight [OF c l a]
  from t have f: "fetchCalls (run (samplePage []) [Refresh, Refresh]) = fetchCalls (samplePage []) + 1"
    by blast
  from t have w: "awaiting (run (samplePage []) [Refresh, Refresh]) \<le> 1"
    by blast
  from t have i: "\<not> isLoading (run (samplePage []) [Refresh, Settle ''10:00:00'' (Rejected (JsError ''Failed to fetch''))])"
    by blast
  from c l a f w i show ?thesis by blast
qed

text \<open>
  Claim C6, as stated, fails: on a page showing the card of a room, a refresh whose fetch
  is rejected leaves the grid empty.
\<close>

theorem failed_refresh_counterexample:
  "roomGrid (samplePage [reading ''A'' 900 3]) = [reading ''A'' 900 3] \<and>
   roomGrid (run (samplePage [reading ''A'' 900 3])
      [Refresh, Settle ''10:00:00'' (Rejected (JsError ''Failed to fetch''))]) = []"
  by (simp add: run_def samplePage_def loadRoomData_invoke_def loadRoomData_settle_def
        fetchLatestRoomCounts_def page_ops Let_def)

text \<open>
  Claim C6, amended. When the fetch fails, the continuation reports the failure on the page
  (the status line, and the error message with the failure's message), shows the empty
  state and empties the grid of room cards, and clears the flag and the controls; every
  other part of the page is unchanged. Nothing is returned to the caller.
\<close>

theorem failed_refresh:
  assumes "fetchLatestRoomCounts (supabaseClient s) outcome = Inl e"
  shows "loadRoomData_settle clock outcome s =
           s\<lparr>statusText := ''Failed to load data'', statusColor := ''#ef4444'',
             errorMessageText := ''Failed to load room data: '' @ message e,
             errorMessageHidden := False, emptyStateHidden := False, roomGrid := [],
             isLoading := False, refreshBtnDisabled := False, awaiting := awaiting s - 1,
             loadingIndicatorHidden := True\<rparr>"
  using assms by (simp add: loadRoomData_settle_def page_ops getStatusColor_def Let_def)

theorem failed_refresh_witness:
  "fetchLatestRoomCounts (supabaseClient (loadRoomData_invoke (samplePage [reading ''A'' 900 3])))
     (Rejected (JsError ''Failed to fetch'')) = Inl (JsError ''Failed to fetch'') \<and>
   roomGrid (loadRoomData_settle ''10:00:00'' (Rejected (JsError ''Failed to fetch''))
     (loadRoomData_invoke (samplePage [reading ''A'' 900 3]))) = [] \<and>
   errorMessageText (loadRoomData_settle ''10:00:00'' (Rejected (JsError ''Failed to fetch''))
     (loadRoomData_invoke (samplePage [reading ''A'' 900 3]))) = ''Failed to load room data: Failed to fetch'' \<and>
   \<not> isLoading (loadRoomData_settle ''10:00:00'' (Rejected (JsError ''Failed to fetch''))
     (loadRoomData_invoke (samplePage [reading ''A'' 900 3])))"
proof -
  let ?s = "loadRoomData_invoke (samplePage [reading ''A'' 900 3])"
  let ?o = "Rejected (JsError ''Failed to fetch'')"
  have h: "fetchLatestRoomCounts (supabaseClient ?s) ?o = Inl (JsError ''Failed to fetch'')"
    by (simp add: fetchLatestRoomCounts_def loadRoomData_invoke_def samplePage_def page_ops Let_def)
  note t = failed_refresh [OF h, of "''10:00:00''"]
  have g: "roomGrid (loadRoomData_settle ''10:00:00'' ?o ?s) = []"
    by (subst t) simp
  have m: "errorMessageText (loadRoomData_settle ''10:00:00'' ?o ?s) = ''Failed to load room data: Failed to fetch''"
    by (subst t) simp
  have l: "\<not> isLoading (loadRoomData_settle ''10:00:00'' ?o ?s)"
    by (subst t) simp
  from h g m l show ?thesis by blast
qed

end
